theory Spec2Isabelle
  imports Main "HOL-Library.AList"
begin

section \<open>DataSafe: archive a source directory and record it in a catalog\<close>

text \<open>
  A shallow embedding of \<^verbatim>\<open>core.py\<close>, \<^verbatim>\<open>manager.py\<close>, \<^verbatim>\<open>models.py\<close> and \<^verbatim>\<open>app.py\<close>.
  (\<^verbatim>\<open>main.py\<close> is a single-file copy of the same classes; it does not parse, line 56
  reads \<^verbatim>\<open>try:now\<close>, so the split modules are the ones embedded.)
  Exceptions are values of type \<open>error\<close>; a function that may raise returns
  \<open>error + 'a\<close> with \<open>Inl\<close> for the exception. A string is the list of its bytes in
  UTF-8; the length of a file's content is its size.
\<close>

datatype error =
    ValueError string   \<comment> \<open>\<^verbatim>\<open>raise ValueError(...)\<close>, with the constant part of the message\<close>
  | OSError string      \<comment> \<open>any exception of the operating system or of the archive writers\<close>
  | DBError string      \<comment> \<open>any exception of the database layer\<close>

subsection \<open>\<^verbatim>\<open>CompressionType\<close>\<close>

datatype CompressionType = TAR | TAR_GZ | ZIP

fun value_of :: "CompressionType \<Rightarrow> string" where
  "value_of TAR = ''tar''"
| "value_of TAR_GZ = ''tar.gz''"
| "value_of ZIP = ''zip''"

definition members :: "CompressionType list" where
  "members = [TAR, TAR_GZ, ZIP]"

definition value2member_map :: "string \<rightharpoonup> CompressionType" where
  \<comment> \<open>\<^verbatim>\<open>cls._value2member_map_\<close>: the enum's dictionary from values to members\<close>
  "value2member_map = map_of (map (\<lambda>m. (value_of m, m)) members)"

definition has_value :: "string \<Rightarrow> bool" where
  \<comment> \<open>\<^verbatim>\<open>value in cls._value2member_map_\<close>\<close>
  "has_value v = (value2member_map v \<noteq> None)"

subsection \<open>\<^verbatim>\<open>SourceDirectory._make_safe_name\<close>\<close>

definition str_replace :: "char \<Rightarrow> char \<Rightarrow> string \<Rightarrow> string" where
  \<comment> \<open>\<^verbatim>\<open>str.replace(old, new)\<close> for one-character arguments\<close>
  "str_replace old new s = map (\<lambda>c. if c = old then new else c) s"

definition reserved :: "char list" where
  \<comment> \<open>the character class \<^verbatim>\<open>[<>:"/\\|?*]\<close>; 0x22 is the double quote, 0x5C the backslash\<close>
  "reserved = [CHR ''<'', CHR ''>'', CHR '':'', CHR 0x22, CHR ''/'', CHR 0x5C,
               CHR ''|'', CHR ''?'', CHR ''*'']"

definition re_sub_class :: "char list \<Rightarrow> char \<Rightarrow> string \<Rightarrow> string" where
  \<comment> \<open>\<^verbatim>\<open>re.sub\<close> of a one-character class: every matching character is replaced\<close>
  "re_sub_class cls new s = map (\<lambda>c. if c \<in> set cls then new else c) s"

definition make_safe_name :: "string \<Rightarrow> string" where
  \<comment> \<open>the characters replaced are ASCII, and no byte of a longer UTF-8 sequence is ASCII:
      replacing by bytes is replacing by characters\<close>
  "make_safe_name name = re_sub_class reserved (CHR ''_'') (str_replace (CHR '' '') (CHR ''_'') name)"

subsection \<open>The filesystem\<close>

text \<open>
  A path is the list of its components below the filesystem root, without \<^verbatim>\<open>.\<close> or
  \<^verbatim>\<open>..\<close>. The filesystem is the tree of the root directory. A directory lists its
  entries in the order \<^verbatim>\<open>os.scandir\<close> gives them. A symbolic link is held with the node
  it resolves to (\<open>None\<close> when it dangles), by value. \<open>Unreadable\<close> is an entry on which
  \<^verbatim>\<open>stat\<close> fails with an error other than "not found" (an I/O or permission error).
  \<open>Locked\<close> is a directory without permissions (mode 000): \<^verbatim>\<open>stat\<close> of the directory
  itself succeeds, it cannot be listed, and \<^verbatim>\<open>stat\<close> of any path below it fails with a
  permission error, whether the path is there or not. The backup root is taken to lie
  outside the source: a copy or an archive written into the tree it is read from is not
  represented.
\<close>

type_synonym path = "string list"

datatype node =
    File string
  | Dir "(string \<times> node) list"
  | Symlink "node option"
  | Unreadable
  | Locked "(string \<times> node) list"

type_synonym filesystem = node

definition path_name :: "path \<Rightarrow> string" where
  \<comment> \<open>\<^verbatim>\<open>Path.name\<close>: the final component, empty for the root\<close>
  "path_name p = (if p = [] then [] else last p)"

definition joinp :: "path \<Rightarrow> string \<Rightarrow> path" where
  \<comment> \<open>\<^verbatim>\<open>p / s\<close> for a string without separator; \<^verbatim>\<open>p / ""\<close> is \<^verbatim>\<open>p\<close>\<close>
  "joinp p s = (if s = [] then p else p @ [s])"

fun join_path :: "path \<Rightarrow> string" where
  \<comment> \<open>\<^verbatim>\<open>str\<close> of a relative path\<close>
  "join_path [] = ''.''"
| "join_path [c] = c"
| "join_path (c # cs) = c @ ''/'' @ join_path cs"

fun follow :: "node \<Rightarrow> error + node option" where
  \<comment> \<open>what \<^verbatim>\<open>os.stat\<close> sees at an entry: links are followed\<close>
  "follow (Symlink None) = Inr None"
| "follow (Symlink (Some n)) = follow n"
| "follow Unreadable = Inl (OSError ''stat failed'')"
| "follow n = Inr (Some n)"

fun lstat :: "filesystem \<Rightarrow> path \<Rightarrow> error + node option" where
  \<comment> \<open>the entry at a path; links are followed in the directory part only. \<open>Inr None\<close>
      stands for the errors pathlib ignores (no such entry, not a directory)\<close>
  "lstat n [] = Inr (Some n)"
| "lstat n (c # cs) =
     (case follow n of
        Inl e \<Rightarrow> Inl e
      | Inr (Some (Dir es)) \<Rightarrow> (case map_of es c of None \<Rightarrow> Inr None | Some m \<Rightarrow> lstat m cs)
      | Inr (Some (Locked es)) \<Rightarrow> Inl (OSError ''stat failed'')
      | Inr _ \<Rightarrow> Inr None)"

definition stat :: "filesystem \<Rightarrow> path \<Rightarrow> error + node option" where
  "stat fs p = (case lstat fs p of Inl e \<Rightarrow> Inl e | Inr None \<Rightarrow> Inr None | Inr (Some n) \<Rightarrow> follow n)"

definition exists :: "filesystem \<Rightarrow> path \<Rightarrow> error + bool" where
  \<comment> \<open>\<^verbatim>\<open>Path.exists()\<close>\<close>
  "exists fs p = (case stat fs p of Inl e \<Rightarrow> Inl e | Inr None \<Rightarrow> Inr False | Inr (Some _) \<Rightarrow> Inr True)"

definition is_dir :: "filesystem \<Rightarrow> path \<Rightarrow> error + bool" where
  \<comment> \<open>\<^verbatim>\<open>Path.is_dir()\<close>\<close>
  "is_dir fs p =
     (case stat fs p of
        Inl e \<Rightarrow> Inl e
      | Inr (Some (Dir _)) \<Rightarrow> Inr True
      | Inr (Some (Locked _)) \<Rightarrow> Inr True
      | Inr _ \<Rightarrow> Inr False)"

definition is_file :: "node \<Rightarrow> error + bool" where
  \<comment> \<open>\<^verbatim>\<open>Path.is_file()\<close> of an entry the traversal has produced: true for a regular file
      and for a link that resolves to one\<close>
  "is_file n = (case follow n of Inl e \<Rightarrow> Inl e | Inr (Some (File _)) \<Rightarrow> Inr True | Inr _ \<Rightarrow> Inr False)"

definition st_size :: "node \<Rightarrow> error + nat" where
  \<comment> \<open>\<^verbatim>\<open>Path.stat().st_size\<close> of an entry; the program reads it of regular files only\<close>
  "st_size n = (case follow n of
       Inl e \<Rightarrow> Inl e
     | Inr (Some (File c)) \<Rightarrow> Inr (length c)
     | Inr (Some _) \<Rightarrow> Inr 0
     | Inr None \<Rightarrow> Inl (OSError ''no such file''))"

fun rglob :: "node \<Rightarrow> (path \<times> node) list"
and rglob_below :: "(string \<times> node) list \<Rightarrow> (path \<times> node) list" where
  \<comment> \<open>\<^verbatim>\<open>rglob("*")\<close> below a directory, with relative paths, in the order of pathlib: the
      entries of the directory, then what lies below each of its subdirectories in turn. A
      link is listed and not entered; of a directory that cannot be listed nothing is
      produced, the error of the listing being swallowed by pathlib\<close>
  "rglob (Dir es) = map (\<lambda>(c, m). ([c], m)) es @ rglob_below es"
| "rglob _ = []"
| "rglob_below [] = []"
| "rglob_below ((c, m) # es) = map (\<lambda>(p, k). (c # p, k)) (rglob m) @ rglob_below es"

definition rglob_path :: "filesystem \<Rightarrow> path \<Rightarrow> (path \<times> node) list" where
  \<comment> \<open>\<^verbatim>\<open>path.rglob("*")\<close>; nothing is produced when the path is not a directory\<close>
  "rglob_path fs p = (case stat fs p of Inr (Some n) \<Rightarrow> rglob n | _ \<Rightarrow> [])"

fun chain :: "path \<Rightarrow> node \<Rightarrow> node" where
  \<comment> \<open>new nested directories that end in the node\<close>
  "chain [] n = n"
| "chain (c # cs) n = Dir [(c, chain cs n)]"

fun install :: "filesystem \<Rightarrow> path \<Rightarrow> node \<Rightarrow> error + filesystem" where
  \<comment> \<open>\<^verbatim>\<open>os.makedirs\<close> of a path that must not exist, the new directory then filled:
      missing parents are created\<close>
  "install r [] n = Inl (OSError ''file exists'')"
| "install (Dir es) (c # cs) n =
     (case map_of es c of
        None \<Rightarrow> Inr (Dir (es @ [(c, chain cs n)]))
      | Some m \<Rightarrow> (case install m cs n of
                     Inl e \<Rightarrow> Inl e
                   | Inr m' \<Rightarrow> Inr (Dir (AList.update c m' es))))"
| "install (Symlink (Some t)) (c # cs) n =
     (case install t (c # cs) n of Inl e \<Rightarrow> Inl e | Inr t' \<Rightarrow> Inr (Symlink (Some t')))"
| "install _ (c # cs) n = Inl (OSError ''not a directory'')"

definition mkdir_parents :: "filesystem \<Rightarrow> path \<Rightarrow> error + filesystem" where
  \<comment> \<open>\<^verbatim>\<open>Path.mkdir(parents=True, exist_ok=True)\<close>\<close>
  "mkdir_parents fs p =
     (case stat fs p of
        Inl e \<Rightarrow> Inl e
      | Inr (Some (Dir _)) \<Rightarrow> Inr fs
      | Inr (Some (Locked _)) \<Rightarrow> Inr fs
      | Inr (Some _) \<Rightarrow> Inl (OSError ''file exists'')
      | Inr None \<Rightarrow> install fs p (Dir []))"

fun write_node :: "node \<Rightarrow> string \<Rightarrow> error + node" where
  \<comment> \<open>opening an existing entry for writing and storing the content\<close>
  "write_node (File _) c = Inr (File c)"
| "write_node (Dir _) c = Inl (OSError ''is a directory'')"
| "write_node (Symlink None) c = Inr (Symlink (Some (File c)))"
| "write_node (Symlink (Some n)) c =
     (case write_node n c of Inl e \<Rightarrow> Inl e | Inr n' \<Rightarrow> Inr (Symlink (Some n')))"
| "write_node Unreadable c = Inl (OSError ''permission denied'')"
| "write_node (Locked _) c = Inl (OSError ''is a directory'')"

fun write_file :: "filesystem \<Rightarrow> path \<Rightarrow> string \<Rightarrow> error + filesystem" where
  \<comment> \<open>\<^verbatim>\<open>open(path, "wb")\<close>, write, close: the file is created or replaced; the parent
      must exist\<close>
  "write_file n [] c = write_node n c"
| "write_file (Dir es) (x # xs) c =
     (case map_of es x of
        None \<Rightarrow> if xs = [] then Inr (Dir (es @ [(x, File c)])) else Inl (OSError ''no such file'')
      | Some m \<Rightarrow> (case write_file m xs c of
                     Inl e \<Rightarrow> Inl e
                   | Inr m' \<Rightarrow> Inr (Dir (AList.update x m' es))))"
| "write_file (Symlink (Some n)) (x # xs) c =
     (case write_file n (x # xs) c of Inl e \<Rightarrow> Inl e | Inr n' \<Rightarrow> Inr (Symlink (Some n')))"
| "write_file _ (x # xs) c = Inl (OSError ''not a directory'')"

fun copy_node :: "node \<Rightarrow> node option \<times> nat"
and copy_entries :: "(string \<times> node) list \<Rightarrow> (string \<times> node) list \<times> nat" where
  \<comment> \<open>\<^verbatim>\<open>shutil.copytree\<close> with its defaults: links are followed and their targets copied;
      an entry that cannot be read is left out and counted, and the copy goes on\<close>
  "copy_node (File c) = (Some (File c), 0)"
| "copy_node (Dir es) = (case copy_entries es of (es', k) \<Rightarrow> (Some (Dir es'), k))"
| "copy_node (Symlink None) = (None, 1)"
| "copy_node (Symlink (Some n)) = copy_node n"
| "copy_node Unreadable = (None, 1)"
| "copy_node (Locked es) = (None, 1)"
| "copy_entries [] = ([], 0)"
| "copy_entries ((c, m) # es) =
     (case copy_node m of (r, k) \<Rightarrow>
        (case copy_entries es of (es', k') \<Rightarrow>
           ((case r of None \<Rightarrow> es' | Some m' \<Rightarrow> (c, m') # es'), k + k')))"

definition copytree :: "filesystem \<Rightarrow> path \<Rightarrow> path \<Rightarrow> (error + unit) \<times> filesystem" where
  \<comment> \<open>\<^verbatim>\<open>shutil.copytree(src, dst)\<close>: the source is listed, the destination created (it
      must not exist), the entries copied; the errors are raised together at the end\<close>
  "copytree fs src dst =
     (case stat fs src of
        Inl e \<Rightarrow> (Inl e, fs)
      | Inr (Some (Dir es)) \<Rightarrow>
          (case copy_entries es of (es', k) \<Rightarrow>
             (case install fs dst (Dir es') of
                Inl e \<Rightarrow> (Inl e, fs)
              | Inr fs' \<Rightarrow> (if k = 0 then Inr () else Inl (OSError ''shutil.Error''), fs')))
      | Inr _ \<Rightarrow> (Inl (OSError ''not a directory''), fs))"

subsection \<open>Time stamps\<close>

text \<open>
  A \<^verbatim>\<open>datetime\<close> to the second (the program formats and stores nothing finer). Python
  keeps the year in 1..9999, the month in 1..12, the day in 1..31, the hour below 24,
  minute and second below 60.
\<close>

record datetime =
  year :: nat
  month :: nat
  day :: nat
  hour :: nat
  minute :: nat
  second :: nat


definition digit :: "nat \<Rightarrow> char" where
  "digit n = ''0123456789'' ! (n mod 10)"

definition pad2 :: "nat \<Rightarrow> string" where
  \<comment> \<open>two decimal digits, zero padded: \<^verbatim>\<open>%m %d %H %M %S\<close>\<close>
  "pad2 n = [digit (n div 10), digit n]"

fun decimal :: "nat \<Rightarrow> string" where
  \<comment> \<open>the decimal digits, without leading zeros: \<^verbatim>\<open>%Y\<close> as the C library of the platform
      prints it (\<^verbatim>\<open>999\<close> for the year 999)\<close>
  "decimal n = (if n < 10 then [digit n] else decimal (n div 10) @ [digit n])"

declare decimal.simps [simp del]

definition strftime :: "datetime \<Rightarrow> string" where
  \<comment> \<open>\<^verbatim>\<open>strftime('%Y-%m-%d-%H%M%S')\<close>\<close>
  "strftime d = decimal (year d) @ ''-'' @ pad2 (month d) @ ''-'' @ pad2 (day d) @ ''-'' @
                pad2 (hour d) @ pad2 (minute d) @ pad2 (second d)"

subsection \<open>The environment of a run\<close>

datatype member = MFile string | MDir | MLink

datatype stmt = CreateTables | InsertDirectory | InsertBackup | Commit

record env =
  now :: datetime
    \<comment> \<open>\<^verbatim>\<open>datetime.now()\<close>; one reading of the clock serves the run\<close>
  home :: path
    \<comment> \<open>\<^verbatim>\<open>Path.home()\<close>\<close>
  mtime :: "path \<Rightarrow> error + datetime"
    \<comment> \<open>\<^verbatim>\<open>datetime.fromtimestamp(path.stat().st_mtime)\<close>, or the exception it raises\<close>
  enc :: "CompressionType \<Rightarrow> (string \<times> member) list \<Rightarrow> string"
    \<comment> \<open>the bytes \<^verbatim>\<open>tarfile\<close> and \<^verbatim>\<open>zipfile\<close> write for a list of members\<close>
  rejects :: "stmt \<Rightarrow> bool"
    \<comment> \<open>the statements the database fails to execute in this run\<close>

subsection \<open>\<^verbatim>\<open>SourceDirectory\<close>\<close>

text \<open>The fields \<^verbatim>\<open>path\<close>, \<^verbatim>\<open>name\<close>, \<^verbatim>\<open>size\<close>, \<^verbatim>\<open>date\<close> carry the prefix \<open>src_\<close>.\<close>

record SourceDirectory =
  src_path :: path
  src_name :: string
  src_size :: "nat option"
  src_date :: datetime
  calculate_size :: bool

fun sum_sizes :: "(path \<times> node) list \<Rightarrow> error + nat" where
  \<comment> \<open>\<^verbatim>\<open>sum(f.stat().st_size for f in ... if f.is_file())\<close>\<close>
  "sum_sizes [] = Inr 0"
| "sum_sizes ((p, n) # es) =
     (case is_file n of
        Inl e \<Rightarrow> Inl e
      | Inr False \<Rightarrow> sum_sizes es
      | Inr True \<Rightarrow>
          (case st_size n of
             Inl e \<Rightarrow> Inl e
           | Inr k \<Rightarrow> (case sum_sizes es of Inl e \<Rightarrow> Inl e | Inr t \<Rightarrow> Inr (k + t))))"

definition get_size :: "filesystem \<Rightarrow> path \<Rightarrow> nat" where
  \<comment> \<open>\<^verbatim>\<open>_get_size\<close>: any exception of the traversal is logged and 0 returned\<close>
  "get_size fs p = (case sum_sizes (rglob_path fs p) of Inl e \<Rightarrow> 0 | Inr t \<Rightarrow> t)"

definition not_a_valid_directory :: error where
  "not_a_valid_directory = ValueError ''is not a valid directory''"

definition SourceDirectory_init :: "env \<Rightarrow> filesystem \<Rightarrow> path \<Rightarrow> bool \<Rightarrow> error + SourceDirectory" where
  \<comment> \<open>\<^verbatim>\<open>SourceDirectory(path, calculate_size)\<close>: the dataclass constructor with its
      \<^verbatim>\<open>__post_init__\<close>\<close>
  "SourceDirectory_init ev fs p calc =
     (case exists fs p of
        Inl e \<Rightarrow> Inl e
      | Inr False \<Rightarrow> Inl not_a_valid_directory
      | Inr True \<Rightarrow>
          (case is_dir fs p of
             Inl e \<Rightarrow> Inl e
           | Inr False \<Rightarrow> Inl not_a_valid_directory
           | Inr True \<Rightarrow>
               Inr \<lparr> src_path = p,
                     src_name = make_safe_name (path_name p),
                     src_size = (if calc then Some (get_size fs p) else None),
                     src_date = (case mtime ev p of Inl e \<Rightarrow> now ev | Inr d \<Rightarrow> d),
                     calculate_size = calc \<rparr>))"

subsection \<open>\<^verbatim>\<open>BackupArchive\<close>\<close>

record BackupArchive =
  source :: SourceDirectory
  compressed :: bool
  backup_path :: path
  backup_name :: "string option"
  backup_date :: datetime
  compression_type :: CompressionType
  compressed_size :: "nat option"
  backup_file :: "path option"

definition make_backup_name :: "BackupArchive \<Rightarrow> string" where
  "make_backup_name a =
     (let base_name = (case backup_name a of
                         None \<Rightarrow> src_name (source a)
                       | Some b \<Rightarrow> if b = [] then src_name (source a) else b);
          safe_name = make_safe_name base_name
      in safe_name @ ''-'' @ strftime (backup_date a))"

definition get_backup_file_path :: "BackupArchive \<Rightarrow> error + path" where
  "get_backup_file_path a =
     (case backup_name a of
        None \<Rightarrow> Inl (ValueError ''backup_name cannot be None'')
      | Some b \<Rightarrow>
          (let ext = (if compressed a then value_of (compression_type a) else [])
           in Inr (if ext \<noteq> [] then joinp (backup_path a) (b @ ''.'' @ ext)
                   else joinp (backup_path a) b)))"

definition arcname :: "string \<Rightarrow> path \<Rightarrow> string" where
  \<comment> \<open>\<^verbatim>\<open>str(Path(self.source.name) / file.relative_to(self.source.path))\<close>\<close>
  "arcname nm rel = join_path (if nm = [] then rel else nm # rel)"

definition zip_write :: "string \<Rightarrow> path \<times> node \<Rightarrow> error + string \<times> member" where
  \<comment> \<open>\<^verbatim>\<open>zipf.write(str(file), arcname=arcname)\<close>: the entry is read through links; a
      directory becomes an entry of its own, its name closed by a slash\<close>
  "zip_write nm f =
     (case follow (snd f) of
        Inl e \<Rightarrow> Inl e
      | Inr None \<Rightarrow> Inl (OSError ''no such file'')
      | Inr (Some (File c)) \<Rightarrow> Inr (arcname nm (fst f), MFile c)
      | Inr (Some (Dir _)) \<Rightarrow> Inr (arcname nm (fst f) @ ''/'', MDir)
      | Inr (Some (Locked _)) \<Rightarrow> Inr (arcname nm (fst f) @ ''/'', MDir)
      | Inr (Some _) \<Rightarrow> Inl (OSError ''stat failed''))"

fun zip_loop :: "string \<Rightarrow> (path \<times> node) list \<Rightarrow> (string \<times> member) list \<times> error option" where
  \<comment> \<open>the \<^verbatim>\<open>for file in self.source.path.rglob("*")\<close> loop: the members written, and the
      exception that ended the loop, if any\<close>
  "zip_loop nm [] = ([], None)"
| "zip_loop nm (f # fs) =
     (case zip_write nm f of
        Inl e \<Rightarrow> ([], Some e)
      | Inr m \<Rightarrow> (case zip_loop nm fs of (ms, r) \<Rightarrow> (m # ms, r)))"

definition tar_join :: "string \<Rightarrow> string \<Rightarrow> string" where
  \<comment> \<open>\<^verbatim>\<open>os.path.join(arcname, f)\<close>\<close>
  "tar_join a f = (if a = [] then f else a @ ''/'' @ f)"

fun tar_add :: "string \<Rightarrow> node \<Rightarrow> (string \<times> member) list \<times> error option"
and tar_add_entries :: "string \<Rightarrow> (string \<times> node) list \<Rightarrow> (string \<times> member) list \<times> error option" where
  \<comment> \<open>\<^verbatim>\<open>tar.add(name, arcname)\<close>: recursive, links stored as links; the members written
      and the exception that ended it, if any; a directory that cannot be listed is added
      and ends it. (tarfile takes the names of a directory in sorted order; the model
      takes them as listed.)\<close>
  "tar_add a (File c) = ([(a, MFile c)], None)"
| "tar_add a (Symlink t) = ([(a, MLink)], None)"
| "tar_add a Unreadable = ([], Some (OSError ''stat failed''))"
| "tar_add a (Locked es) = ([(a, MDir)], Some (OSError ''permission denied''))"
| "tar_add a (Dir es) = (case tar_add_entries a es of (ms, r) \<Rightarrow> ((a, MDir) # ms, r))"
| "tar_add_entries a [] = ([], None)"
| "tar_add_entries a ((c, m) # es) =
     (case tar_add (tar_join a c) m of
        (ms, Some e) \<Rightarrow> (ms, Some e)
      | (ms, None) \<Rightarrow> (case tar_add_entries a es of (ms', r) \<Rightarrow> (ms @ ms', r)))"

definition tar_members :: "filesystem \<Rightarrow> path \<Rightarrow> string \<Rightarrow> (string \<times> member) list \<times> error option" where
  "tar_members fs p nm =
     (case lstat fs p of
        Inl e \<Rightarrow> ([], Some e)
      | Inr None \<Rightarrow> ([], Some (OSError ''no such file''))
      | Inr (Some n) \<Rightarrow> tar_add nm n)"

definition archive_members :: "filesystem \<Rightarrow> BackupArchive \<Rightarrow> (string \<times> member) list \<times> error option" where
  \<comment> \<open>the branches of \<^verbatim>\<open>_compress\<close>; its final \<^verbatim>\<open>else\<close> (unknown type) has no member of
      the enum left to reach it\<close>
  "archive_members fs a =
     (case compression_type a of
        TAR \<Rightarrow> tar_members fs (src_path (source a)) (src_name (source a))
      | TAR_GZ \<Rightarrow> tar_members fs (src_path (source a)) (src_name (source a))
      | ZIP \<Rightarrow> zip_loop (src_name (source a)) (rglob_path fs (src_path (source a))))"

definition compress :: "env \<Rightarrow> filesystem \<Rightarrow> BackupArchive \<Rightarrow> path \<Rightarrow> (error + unit) \<times> filesystem" where
  \<comment> \<open>\<^verbatim>\<open>_compress\<close>: the archive file is opened for writing (created empty), the members are
      added, and the file is closed with the members written so far, also when an
      exception leaves the \<^verbatim>\<open>with\<close> block\<close>
  "compress ev fs a f =
     (case write_file fs f [] of
        Inl e \<Rightarrow> (Inl e, fs)
      | Inr fs1 \<Rightarrow>
          (case archive_members fs1 a of (ms, r) \<Rightarrow>
             (case write_file fs1 f (enc ev (compression_type a) ms) of
                Inl e \<Rightarrow> (Inl e, fs1)
              | Inr fs2 \<Rightarrow> ((case r of None \<Rightarrow> Inr () | Some e \<Rightarrow> Inl e), fs2))))"

definition move :: "filesystem \<Rightarrow> BackupArchive \<Rightarrow> (error + unit) \<times> filesystem" where
  \<comment> \<open>\<^verbatim>\<open>_move\<close>\<close>
  "move fs a =
     (let dest = joinp (backup_path a) (src_name (source a))
      in case exists fs dest of
           Inl e \<Rightarrow> (Inl e, fs)
         | Inr True \<Rightarrow> (Inr (), fs)
         | Inr False \<Rightarrow> copytree fs (src_path (source a)) dest)"

definition stat_size :: "filesystem \<Rightarrow> path \<Rightarrow> error + nat" where
  \<comment> \<open>\<^verbatim>\<open>path.stat().st_size\<close>\<close>
  "stat_size fs p =
     (case lstat fs p of
        Inl e \<Rightarrow> Inl e
      | Inr None \<Rightarrow> Inl (OSError ''no such file'')
      | Inr (Some n) \<Rightarrow> st_size n)"

definition unsupported_compression_type :: error where
  "unsupported_compression_type = ValueError ''Unsupported compression type''"

definition archive_post_init :: "env \<Rightarrow> filesystem \<Rightarrow> BackupArchive \<Rightarrow> (error + BackupArchive) \<times> filesystem" where
  \<comment> \<open>\<^verbatim>\<open>BackupArchive.__post_init__\<close>\<close>
  "archive_post_init ev fs a =
     (if compressed a \<and> \<not> has_value (value_of (compression_type a))
      then (Inl unsupported_compression_type, fs)
      else
        (case mkdir_parents fs (backup_path a) of
           Inl e \<Rightarrow> (Inl e, fs)
         | Inr fs1 \<Rightarrow>
             (let a1 = a\<lparr>backup_name := Some (make_backup_name a)\<rparr>
              in case get_backup_file_path a1 of
                   Inl e \<Rightarrow> (Inl e, fs1)
                 | Inr f \<Rightarrow>
                     (let a2 = a1\<lparr>backup_file := Some f\<rparr>
                      in if compressed a2
                         then
                           (case compress ev fs1 a2 f of
                              (Inl e, fs2) \<Rightarrow> (Inr (a2\<lparr>compressed_size := None\<rparr>), fs2)
                            | (Inr u, fs2) \<Rightarrow>
                                (case exists fs2 f of
                                   Inl e \<Rightarrow> (Inr (a2\<lparr>compressed_size := None\<rparr>), fs2)
                                 | Inr False \<Rightarrow> (Inr (a2\<lparr>compressed_size := None\<rparr>), fs2)
                                 | Inr True \<Rightarrow>
                                     (case stat_size fs2 f of
                                        Inl e \<Rightarrow> (Inr (a2\<lparr>compressed_size := None\<rparr>), fs2)
                                      | Inr k \<Rightarrow> (Inr (a2\<lparr>compressed_size := Some k\<rparr>), fs2))))
                         else
                           (case move fs1 a2 of
                              (Inl e, fs2) \<Rightarrow> (Inr (a2\<lparr>compressed_size := None\<rparr>), fs2)
                            | (Inr u, fs2) \<Rightarrow> (Inr (a2\<lparr>compressed_size := None\<rparr>), fs2))))))"

definition BackupArchive_init ::
  "env \<Rightarrow> filesystem \<Rightarrow> SourceDirectory \<Rightarrow> bool \<Rightarrow> path \<Rightarrow> string option \<Rightarrow> datetime \<Rightarrow>
   CompressionType \<Rightarrow> (error + BackupArchive) \<times> filesystem" where
  \<comment> \<open>the dataclass constructor: the fields are set, the two \<^verbatim>\<open>init=False\<close> fields start as
      \<^verbatim>\<open>None\<close>, then \<^verbatim>\<open>__post_init__\<close> runs\<close>
  "BackupArchive_init ev fs s c bp bn bd ct =
     archive_post_init ev fs
       \<lparr> source = s, compressed = c, backup_path = bp, backup_name = bn, backup_date = bd,
         compression_type = ct, compressed_size = None, backup_file = None \<rparr>"

subsection \<open>The catalog: \<^verbatim>\<open>models.py\<close>\<close>

text \<open>
  The rows of the two tables. An object that has not been flushed has no \<^verbatim>\<open>id\<close>. The
  columns of \<^verbatim>\<open>DirectoryModel\<close> carry the prefix \<open>dir_\<close>, those of \<^verbatim>\<open>BackupModel\<close> the
  prefix \<open>bk_\<close>, \<^verbatim>\<open>directory_id\<close> apart.
\<close>

record DirectoryModel =
  dir_id :: "nat option"
  dir_name :: string
  dir_path :: path
  dir_size :: "nat option"
  dir_date :: datetime

record BackupModel =
  bk_id :: "nat option"
  directory_id :: "nat option"
  bk_backup_name :: "string option"
  bk_backup_path :: path
  bk_backup_size :: "nat option"
  bk_backup_date :: datetime
  bk_compressed :: bool
  bk_compression_type :: "string option"
  bk_compressed_size :: "nat option"

text \<open>The database file: whether the tables exist, and the committed rows.\<close>

record database =
  has_tables :: bool
  directories :: "DirectoryModel list"
  backups :: "BackupModel list"

text \<open>
  A session: the objects added and not yet flushed, the rows its open transaction has
  inserted and not yet committed, and whether it has been closed.
\<close>

record session =
  new_directories :: "DirectoryModel list"
  new_backups :: "BackupModel list"
  txn_directories :: "DirectoryModel list"
  txn_backups :: "BackupModel list"
  closed :: bool

definition new_session :: session where
  \<comment> \<open>\<^verbatim>\<open>self.Session()\<close>\<close>
  "new_session = \<lparr> new_directories = [], new_backups = [], txn_directories = [],
                   txn_backups = [], closed = False \<rparr>"

definition next_key :: "nat option list \<Rightarrow> nat" where
  \<comment> \<open>the key the database generates: one more than the largest in the table\<close>
  "next_key ks = Suc (fold (\<lambda>k m. case k of None \<Rightarrow> m | Some i \<Rightarrow> max i m) ks 0)"

definition add_directory :: "session \<Rightarrow> DirectoryModel \<Rightarrow> session" where
  \<comment> \<open>\<^verbatim>\<open>session.add(dir_mod)\<close>\<close>
  "add_directory s d = s\<lparr>new_directories := new_directories s @ [d]\<rparr>"

definition add_backup :: "session \<Rightarrow> BackupModel \<Rightarrow> session" where
  \<comment> \<open>\<^verbatim>\<open>session.add(backup_mod)\<close>\<close>
  "add_backup s b = s\<lparr>new_backups := new_backups s @ [b]\<rparr>"

definition insert_fails :: "env \<Rightarrow> database \<Rightarrow> stmt \<Rightarrow> bool" where
  "insert_fails ev db st = (\<not> has_tables db \<or> rejects ev st)"

definition flush :: "env \<Rightarrow> database \<Rightarrow> session \<Rightarrow> (error + unit) \<times> session" where
  \<comment> \<open>\<^verbatim>\<open>session.flush()\<close>: the pending objects are inserted inside the transaction, the
      directories first, and receive their generated keys\<close>
  "flush ev db s =
     (if new_directories s \<noteq> [] \<and> insert_fails ev db InsertDirectory
      then (Inl (DBError ''insert into directories''), s)
      else
        (let n = next_key (map dir_id (directories db @ txn_directories s));
             ds = map (\<lambda>(k, d). d\<lparr>dir_id := Some k\<rparr>)
                      (zip [n ..< n + length (new_directories s)] (new_directories s));
             s1 = s\<lparr>new_directories := [], txn_directories := txn_directories s @ ds\<rparr>
         in if new_backups s1 \<noteq> [] \<and> insert_fails ev db InsertBackup
            then (Inl (DBError ''insert into backups''), s1)
            else
              (let m = next_key (map bk_id (backups db @ txn_backups s1));
                   bs = map (\<lambda>(k, b). b\<lparr>bk_id := Some k\<rparr>)
                            (zip [m ..< m + length (new_backups s1)] (new_backups s1))
               in (Inr (), s1\<lparr>new_backups := [], txn_backups := txn_backups s1 @ bs\<rparr>))))"

definition commit :: "env \<Rightarrow> database \<Rightarrow> session \<Rightarrow> (error + unit) \<times> database \<times> session" where
  \<comment> \<open>\<^verbatim>\<open>session.commit()\<close>: flush, then make the rows of the transaction permanent\<close>
  "commit ev db s =
     (case flush ev db s of
        (Inl e, s1) \<Rightarrow> (Inl e, db, s1)
      | (Inr u, s1) \<Rightarrow>
          if rejects ev Commit then (Inl (DBError ''commit''), db, s1)
          else (Inr (),
                db\<lparr>directories := directories db @ txn_directories s1,
                   backups := backups db @ txn_backups s1\<rparr>,
                s1\<lparr>txn_directories := [], txn_backups := []\<rparr>))"

definition rollback :: "session \<Rightarrow> session" where
  \<comment> \<open>\<^verbatim>\<open>session.rollback()\<close>: the transaction and the pending objects are discarded\<close>
  "rollback s = s\<lparr>new_directories := [], new_backups := [], txn_directories := [],
                  txn_backups := []\<rparr>"

definition session_close :: "session \<Rightarrow> session" where
  \<comment> \<open>\<^verbatim>\<open>session.close()\<close>\<close>
  "session_close s = (rollback s)\<lparr>closed := True\<rparr>"

definition last_directory_id :: "session \<Rightarrow> nat option" where
  \<comment> \<open>\<^verbatim>\<open>dir_mod.id\<close> after the flush: \<^verbatim>\<open>dir_mod\<close> is the row the flush has just inserted\<close>
  "last_directory_id s =
     (case txn_directories s of [] \<Rightarrow> None | d # ds \<Rightarrow> dir_id (last (d # ds)))"

subsection \<open>\<^verbatim>\<open>BackupManager\<close>: \<^verbatim>\<open>manager.py\<close>\<close>

text \<open>
  The state a run works on: the filesystem, the database file, and every session that
  has been created, in the order of creation. A session is known by its position.
\<close>

record world =
  files :: filesystem
  catalog :: database
  sessions :: "session list"

record BackupManager =
  session_of :: nat
  source_dir :: SourceDirectory
  backup_archive :: BackupArchive

definition DatabaseManager_init :: "world \<Rightarrow> nat \<times> world" where
  \<comment> \<open>\<^verbatim>\<open>DatabaseManager()\<close>: an engine and a new session; \<^verbatim>\<open>get_session\<close> returns that
      session\<close>
  "DatabaseManager_init w = (length (sessions w), w\<lparr>sessions := sessions w @ [new_session]\<rparr>)"

definition create_db :: "env \<Rightarrow> world \<Rightarrow> error + world" where
  \<comment> \<open>\<^verbatim>\<open>Base.metadata.create_all(engine)\<close>\<close>
  "create_db ev w =
     (if rejects ev CreateTables then Inl (DBError ''create tables'')
      else Inr (w\<lparr>catalog := (catalog w)\<lparr>has_tables := True\<rparr>\<rparr>))"

definition BackupManager_init ::
  "env \<Rightarrow> world \<Rightarrow> path \<Rightarrow> bool \<Rightarrow> bool \<Rightarrow> CompressionType \<Rightarrow> (error + BackupManager) \<times> world" where
  \<comment> \<open>\<^verbatim>\<open>BackupManager.__init__\<close>: every exception is logged and raised again. The archive is
      built with the default \<^verbatim>\<open>backup_path\<close>, \<^verbatim>\<open>backup_name\<close> and \<^verbatim>\<open>backup_date\<close>\<close>
  "BackupManager_init ev w p calc cmpr ct =
     (case DatabaseManager_init w of (h, w1) \<Rightarrow>
        (case SourceDirectory_init ev (files w1) p calc of
           Inl e \<Rightarrow> (Inl e, w1)
         | Inr sd \<Rightarrow>
             (case BackupArchive_init ev (files w1) sd cmpr (home ev @ [''.backups'']) None
                     (now ev) ct of
                (Inl e, fs') \<Rightarrow> (Inl e, w1\<lparr>files := fs'\<rparr>)
              | (Inr a, fs') \<Rightarrow>
                  (Inr \<lparr> session_of = h, source_dir = sd, backup_archive = a \<rparr>,
                   w1\<lparr>files := fs'\<rparr>))))"

definition save_backup_metadata ::
  "env \<Rightarrow> BackupManager \<Rightarrow> database \<Rightarrow> session \<Rightarrow> (error + unit) \<times> database \<times> session" where
  \<comment> \<open>\<^verbatim>\<open>BackupManager.save_backup_metadata\<close> on the database and the manager's session\<close>
  "save_backup_metadata ev mgr db s =
     (let dir_mod = \<lparr> dir_id = None,
                      dir_name = src_name (source_dir mgr),
                      dir_path = src_path (source_dir mgr),
                      dir_size = src_size (source_dir mgr),
                      dir_date = src_date (source_dir mgr) \<rparr>;
          s1 = add_directory s dir_mod
      in case flush ev db s1 of
           (Inl e, s2) \<Rightarrow> (Inl e, db, rollback s2)
         | (Inr u, s2) \<Rightarrow>
             (let backup_mod =
                    \<lparr> bk_id = None,
                      directory_id = last_directory_id s2,
                      bk_backup_name = backup_name (backup_archive mgr),
                      bk_backup_path = backup_path (backup_archive mgr),
                      bk_backup_size = compressed_size (backup_archive mgr),
                      bk_backup_date = backup_date (backup_archive mgr),
                      bk_compressed = compressed (backup_archive mgr),
                      bk_compression_type =
                        (if compressed (backup_archive mgr)
                         then Some (value_of (compression_type (backup_archive mgr)))
                         else None),
                      bk_compressed_size = compressed_size (backup_archive mgr) \<rparr>;
                  s3 = add_backup s2 backup_mod
              in case commit ev db s3 of
                   (Inl e, db', s4) \<Rightarrow> (Inl e, db', rollback s4)
                 | (Inr u', db', s4) \<Rightarrow> (Inr (), db', s4)))"

definition run_save_backup_metadata :: "env \<Rightarrow> BackupManager \<Rightarrow> world \<Rightarrow> (error + unit) \<times> world" where
  \<comment> \<open>the same on the whole state, through the manager's session\<close>
  "run_save_backup_metadata ev mgr w =
     (if session_of mgr < length (sessions w)
      then
        (case save_backup_metadata ev mgr (catalog w) (sessions w ! session_of mgr) of
           (r, db', s') \<Rightarrow>
             (r, w\<lparr>catalog := db', sessions := (sessions w)[session_of mgr := s']\<rparr>))
      else (Inl (DBError ''no session''), w))"

definition close :: "BackupManager \<Rightarrow> world \<Rightarrow> world" where
  \<comment> \<open>\<^verbatim>\<open>BackupManager.close\<close>: an exception of \<^verbatim>\<open>session.close()\<close> is logged, not raised\<close>
  "close mgr w =
     (if session_of mgr < length (sessions w)
      then w\<lparr>sessions := (sessions w)[session_of mgr := session_close (sessions w ! session_of mgr)]\<rparr>
      else w)"

subsection \<open>The entry point: \<^verbatim>\<open>app.py\<close>\<close>

definition main :: "env \<Rightarrow> world \<Rightarrow> error option \<times> world" where
  \<comment> \<open>\<^verbatim>\<open>main()\<close>: the exception its \<^verbatim>\<open>except\<close> clause logs as fatal, if any, and the final
      state\<close>
  "main ev w =
     (case DatabaseManager_init w of (db, w1) \<Rightarrow>
        (case create_db ev w1 of
           Inl e \<Rightarrow> (Some e, w1)
         | Inr w2 \<Rightarrow>
             (case BackupManager_init ev w2 (home ev @ [''Desktop'', ''DataSafe'']) True True ZIP of
                (Inl e, w3) \<Rightarrow> (Some e, w3)
              | (Inr backup_mgr, w3) \<Rightarrow>
                  (case run_save_backup_metadata ev backup_mgr w3 of
                     (Inl e, w4) \<Rightarrow> (Some e, w4)
                   | (Inr u, w4) \<Rightarrow> (None, close backup_mgr w4)))))"

subsection \<open>Notions used in the statements\<close>


definition extension :: "BackupArchive \<Rightarrow> string" where
  \<comment> \<open>the suffix \<^verbatim>\<open>_get_backup_file_path\<close> appends to the backup name\<close>
  "extension a = (if compressed a then ''.'' @ value_of (compression_type a) else [])"

definition write_step :: "env \<Rightarrow> filesystem \<Rightarrow> BackupArchive \<Rightarrow> (error + unit) \<times> filesystem" where
  \<comment> \<open>the write step of the construction, on the filesystem as the creation of the backup
      root has left it: the compression into the backup file, or the copy\<close>
  "write_step ev fs a =
     (if compressed a
      then compress ev fs a (joinp (backup_path a) (make_backup_name a @ extension a))
      else move fs a)"



definition directory_row :: "BackupManager \<Rightarrow> nat \<Rightarrow> DirectoryModel" where
  \<comment> \<open>the directory row of a manager's source, under a key\<close>
  "directory_row mgr k =
     \<lparr> dir_id = Some k,
       dir_name = src_name (source_dir mgr),
       dir_path = src_path (source_dir mgr),
       dir_size = src_size (source_dir mgr),
       dir_date = src_date (source_dir mgr) \<rparr>"

definition backup_row :: "BackupManager \<Rightarrow> nat \<Rightarrow> nat \<Rightarrow> BackupModel" where
  \<comment> \<open>the backup row of a manager's archive, under a key and with a foreign key\<close>
  "backup_row mgr j k =
     \<lparr> bk_id = Some j,
       directory_id = Some k,
       bk_backup_name = backup_name (backup_archive mgr),
       bk_backup_path = backup_path (backup_archive mgr),
       bk_backup_size = compressed_size (backup_archive mgr),
       bk_backup_date = backup_date (backup_archive mgr),
       bk_compressed = compressed (backup_archive mgr),
       bk_compression_type =
         (if compressed (backup_archive mgr)
          then Some (value_of (compression_type (backup_archive mgr))) else None),
       bk_compressed_size = compressed_size (backup_archive mgr) \<rparr>"

definition statement_fails :: "env \<Rightarrow> database \<Rightarrow> bool" where
  \<comment> \<open>one of the two inserts or the commit fails\<close>
  "statement_fails ev db =
     (insert_fails ev db InsertDirectory \<or> insert_fails ev db InsertBackup \<or> rejects ev Commit)"

definition fresh :: "session \<Rightarrow> bool" where
  \<comment> \<open>nothing pending and no open transaction, as in a session just created\<close>
  "fresh s = (new_directories s = [] \<and> new_backups s = [] \<and> txn_directories s = [] \<and>
              txn_backups s = [])"

definition session_states :: "world \<Rightarrow> bool list" where
  \<comment> \<open>for every session created so far, whether it has been closed\<close>
  "session_states w = map closed (sessions w)"

fun regular_file_bytes :: "node \<Rightarrow> nat"
and regular_file_bytes_entries :: "(string \<times> node) list \<Rightarrow> nat" where
  \<comment> \<open>the size in the words of the specification: the sum of the sizes of all regular
      files below a directory, recursively, directories and symbolic links excluded\<close>
  "regular_file_bytes (File c) = length c"
| "regular_file_bytes (Dir es) = regular_file_bytes_entries es"
| "regular_file_bytes (Symlink t) = 0"
| "regular_file_bytes Unreadable = 0"
| "regular_file_bytes (Locked es) = regular_file_bytes_entries es"
| "regular_file_bytes_entries [] = 0"
| "regular_file_bytes_entries ((c, m) # es) = regular_file_bytes m + regular_file_bytes_entries es"

fun counted_bytes :: "node \<Rightarrow> nat"
and counted_bytes_entries :: "(string \<times> node) list \<Rightarrow> nat" where
  \<comment> \<open>the sum of the sizes of all entries below a directory, recursively, that are regular
      files or links resolving to a regular file; a link counts with the size of its
      target; a linked directory is not entered, nor is a directory that cannot be listed\<close>
  "counted_bytes (File c) = length c"
| "counted_bytes (Dir es) = counted_bytes_entries es"
| "counted_bytes (Symlink t) = (case follow (Symlink t) of Inr (Some (File c)) \<Rightarrow> length c | _ \<Rightarrow> 0)"
| "counted_bytes Unreadable = 0"
| "counted_bytes (Locked es) = 0"
| "counted_bytes_entries [] = 0"
| "counted_bytes_entries ((c, m) # es) = counted_bytes m + counted_bytes_entries es"

fun readable :: "node \<Rightarrow> bool"
and readable_entries :: "(string \<times> node) list \<Rightarrow> bool" where
  \<comment> \<open>\<^verbatim>\<open>stat\<close> fails on no entry that the traversal produces\<close>
  "readable (File c) = True"
| "readable (Dir es) = readable_entries es"
| "readable (Symlink t) = (\<not> isl (follow (Symlink t)))"
| "readable Unreadable = False"
| "readable (Locked es) = True"
| "readable_entries [] = True"
| "readable_entries ((c, m) # es) = (readable m \<and> readable_entries es)"

fun plain :: "node \<Rightarrow> bool"
and plain_entries :: "(string \<times> node) list \<Rightarrow> bool" where
  \<comment> \<open>regular files and directories that can be listed, nothing else\<close>
  "plain (File c) = True"
| "plain (Dir es) = plain_entries es"
| "plain (Symlink t) = False"
| "plain Unreadable = False"
| "plain (Locked es) = False"
| "plain_entries [] = True"
| "plain_entries ((c, m) # es) = (plain m \<and> plain_entries es)"




fun present :: "node \<Rightarrow> path \<Rightarrow> bool" where
  \<comment> \<open>the path exists, in the words of the specification: an entry is there, whatever
      the permissions on the way\<close>
  "present n [] = True"
| "present (Dir es) (c # cs) = (case map_of es c of None \<Rightarrow> False | Some m \<Rightarrow> present m cs)"
| "present (Locked es) (c # cs) = (case map_of es c of None \<Rightarrow> False | Some m \<Rightarrow> present m cs)"
| "present (Symlink (Some t)) (c # cs) = present t (c # cs)"
| "present n (c # cs) = False"


fun zip_spec :: "string \<Rightarrow> (path \<times> node) list \<Rightarrow> (string \<times> member) list" where
  \<comment> \<open>the entries of the zip in the words of the specification: the regular files of
      the traversal, each under \<^verbatim>\<open>safe_name/<relative path>\<close>, and no other entry\<close>
  "zip_spec nm [] = []"
| "zip_spec nm ((p, File c) # es) = (arcname nm p, MFile c) # zip_spec nm es"
| "zip_spec nm (e # es) = zip_spec nm es"

definition zip_name :: "string \<Rightarrow> path \<times> node \<Rightarrow> string" where
  \<comment> \<open>the name of the zip entry of a traversed path: \<^verbatim>\<open>safe_name/<relative path>\<close>, closed by
      a slash when the path is a directory\<close>
  "zip_name nm f =
     arcname nm (fst f) @
       (case follow (snd f) of
          Inr (Some (Dir es)) \<Rightarrow> ''/''
        | Inr (Some (Locked es)) \<Rightarrow> ''/''
        | _ \<Rightarrow> [])"



subsection \<open>The scenario of the specification, and other inputs\<close>

text \<open>
  A directory \<^verbatim>\<open>Notes\<close> with \<^verbatim>\<open>a.txt\<close> (5 bytes) and \<^verbatim>\<open>sub/b.txt\<close> (3 bytes), once at
  \<^verbatim>\<open>/home/Notes\<close> and once where \<^verbatim>\<open>main\<close> looks for its source. The stand-in for the
  archive writers lists the names of the members.
\<close>

definition notes_tree :: node where
  "notes_tree = Dir [(''a.txt'', File ''hello''), (''sub'', Dir [(''b.txt'', File ''abc'')])]"

definition notes_fs :: filesystem where
  "notes_fs = Dir [(''home'', Dir [(''Desktop'', Dir [(''DataSafe'', notes_tree)]),
                                   (''Notes'', notes_tree)])]"

definition stamp :: "nat \<Rightarrow> datetime" where
  "stamp s = \<lparr> year = 2024, month = 1, day = 2, hour = 3, minute = 4, second = s \<rparr>"

definition example_env :: env where
  "example_env = \<lparr> now = stamp 5, home = [''home''], mtime = (\<lambda>p. Inr (stamp 0)),
                    enc = (\<lambda>t ms. concat (map (\<lambda>m. fst m @ '';'') ms)), rejects = (\<lambda>s. False) \<rparr>"

definition notes_source :: SourceDirectory where
  "notes_source = \<lparr> src_path = [''home'', ''Notes''], src_name = ''Notes'', src_size = Some 8,
                     src_date = stamp 0, calculate_size = True \<rparr>"

definition notes_archive :: "bool \<Rightarrow> CompressionType \<Rightarrow> nat \<Rightarrow> BackupArchive" where
  "notes_archive c t s =
     \<lparr> source = notes_source, compressed = c, backup_path = [''home'', ''.backups''],
       backup_name = None, backup_date = stamp s, compression_type = t,
       compressed_size = None, backup_file = None \<rparr>"

definition notes_manager :: BackupManager where
  "notes_manager = \<lparr> session_of = 0, source_dir = notes_source,
                      backup_archive = (notes_archive True ZIP 5)\<lparr>
                        backup_name := Some ''Notes-2024-01-02-030405'',
                        backup_file := Some [''home'', ''.backups'', ''Notes-2024-01-02-030405.zip''],
                        compressed_size := Some 39\<rparr> \<rparr>"

definition broken_fs :: filesystem where
  \<comment> \<open>a source that holds a dangling link\<close>
  "broken_fs = Dir [(''home'', Dir [(''Notes'', Dir [(''a.txt'', File ''hello''),
                                                     (''l'', Symlink None)])])]"







definition empty_catalog :: database where
  "empty_catalog = \<lparr> has_tables = False, directories = [], backups = [] \<rparr>"

definition ready_catalog :: database where
  \<comment> \<open>the tables created, no rows\<close>
  "ready_catalog = \<lparr> has_tables = True, directories = [], backups = [] \<rparr>"

definition notes_world :: world where
  "notes_world = \<lparr> files = notes_fs, catalog = empty_catalog, sessions = [] \<rparr>"


definition bare_world :: world where
  \<comment> \<open>a filesystem without the source of \<^verbatim>\<open>main\<close>\<close>
  "bare_world = \<lparr> files = Dir [(''home'', Dir [])], catalog = empty_catalog, sessions = [] \<rparr>"

definition failing_env :: "stmt \<Rightarrow> env" where
  \<comment> \<open>the environment of the scenario, with one statement that the database rejects\<close>
  "failing_env st = example_env\<lparr>rejects := (\<lambda>s. s = st)\<rparr>"

section \<open>Properties\<close>

text \<open>
  C1. The safe name is the name with every space replaced by an underscore and then every
  character of \<^verbatim>\<open>< > : " / \ | ? *\<close> replaced by an underscore; the result contains none
  of these characters and no space.
\<close>

theorem make_safe_name_clean:
  "make_safe_name name =
     map (\<lambda>c. if c \<in> {CHR ''<'', CHR ''>'', CHR '':'', CHR 0x22, CHR ''/'', CHR 0x5C,
                        CHR ''|'', CHR ''?'', CHR ''*''} then CHR ''_'' else c)
         (map (\<lambda>c. if c = CHR '' '' then CHR ''_'' else c) name)
   \<and> set (make_safe_name name)
       \<inter> {CHR '' '', CHR ''<'', CHR ''>'', CHR '':'', CHR 0x22, CHR ''/'', CHR 0x5C,
          CHR ''|'', CHR ''?'', CHR ''*''} = {}"
  by (auto simp: make_safe_name_def re_sub_class_def str_replace_def reserved_def)

theorem make_safe_name_clean_witness:
  "make_safe_name (''my doc<1>:'' @ [CHR 0x22] @ ''a/b'' @ [CHR 0x5C] @ ''c|d?e*f.txt_'')
     = ''my_doc_1___a_b_c_d_e_f.txt_''"
  by (simp add: make_safe_name_clean)

subsection \<open>Errors of the filesystem operations\<close>

lemma follow_error: "follow n = Inl e \<Longrightarrow> e = OSError ''stat failed''"
  by (induction n rule: follow.induct) auto

lemma follow_result:
  "follow n = Inr (Some m) \<Longrightarrow> (\<exists>c. m = File c) \<or> (\<exists>es. m = Dir es) \<or> (\<exists>es. m = Locked es)"
  by (induction n rule: follow.induct) auto

lemma lstat_error: "lstat n p = Inl e \<Longrightarrow> e = OSError ''stat failed''"
  by (induction n p rule: lstat.induct)
     (auto split: sum.splits option.splits node.splits dest: follow_error)

lemma stat_error: "stat fs p = Inl e \<Longrightarrow> e = OSError ''stat failed''"
  by (auto simp: stat_def split: sum.splits option.splits dest: follow_error lstat_error)

lemma install_error: "install fs p n = Inl e \<Longrightarrow> \<exists>m. e = OSError m"
  by (induction fs p n rule: install.induct) (auto split: sum.splits option.splits)

lemma mkdir_parents_error: "mkdir_parents fs p = Inl e \<Longrightarrow> \<exists>m. e = OSError m"
  by (auto simp: mkdir_parents_def split: sum.splits option.splits node.splits
           dest: stat_error install_error)

subsection \<open>The format check of \<^verbatim>\<open>BackupArchive.__post_init__\<close>\<close>

lemma has_value_value_of: "has_value (value_of c)"
  by (cases c) (simp_all add: has_value_def value2member_map_def members_def)

text \<open>
  C10. For every member of \<^verbatim>\<open>CompressionType\<close>, \<^verbatim>\<open>has_value\<close> of the member's own value
  is true, so the check for an unsupported format always passes: whatever the
  filesystem and the fields, the construction of a \<^verbatim>\<open>BackupArchive\<close> never fails with
  the "Unsupported compression type" error.
\<close>

theorem unsupported_format_unreachable:
  "has_value (value_of c) \<and> fst (archive_post_init ev fs a) \<noteq> Inl unsupported_compression_type"
proof
  show "has_value (value_of c)" by (rule has_value_value_of)
next
  show "fst (archive_post_init ev fs a) \<noteq> Inl unsupported_compression_type"
  proof (cases "mkdir_parents fs (backup_path a)")
    case (Inl e)
    then obtain m where "e = OSError m" using mkdir_parents_error by blast
    with Inl show ?thesis
      by (simp add: archive_post_init_def has_value_value_of unsupported_compression_type_def)
  next
    case (Inr fs1)
    then show ?thesis
      by (simp add: archive_post_init_def has_value_value_of get_backup_file_path_def Let_def
               split: prod.splits sum.splits bool.splits)
  qed
qed

subsection \<open>Naming of the backup\<close>




















lemma value_of_nonempty: "value_of c \<noteq> []"
  by (cases c) simp_all

lemma get_backup_file_path_eq:
  "get_backup_file_path (a\<lparr>backup_name := Some b\<rparr>) = Inr (joinp (backup_path a) (b @ extension a))"
  by (simp add: get_backup_file_path_def extension_def value_of_nonempty)














subsection \<open>The write step\<close>

lemma archive_members_fields:
  "archive_members fs (a\<lparr>backup_name := x, backup_file := y\<rparr>) = archive_members fs a"
  by (cases "compression_type a") (simp_all add: archive_members_def)

lemma compress_fields:
  "compress ev fs (a\<lparr>backup_name := x, backup_file := y\<rparr>) f = compress ev fs a f"
  by (simp add: compress_def archive_members_fields cong: sum.case_cong prod.case_cong)

lemma move_fields:
  "move fs (a\<lparr>backup_name := x, backup_file := y\<rparr>) = move fs a"
  by (simp add: move_def Let_def cong: sum.case_cong bool.case_cong)

lemma archive_post_init_after_mkdir:
  assumes "mkdir_parents fs (backup_path a) = Inr fs1"
  shows "archive_post_init ev fs a =
     (let f = joinp (backup_path a) (make_backup_name a @ extension a);
          a2 = a\<lparr>backup_name := Some (make_backup_name a), backup_file := Some f\<rparr>
      in case write_step ev fs1 a of
           (Inl e, fs2) \<Rightarrow> (Inr (a2\<lparr>compressed_size := None\<rparr>), fs2)
         | (Inr u, fs2) \<Rightarrow>
             if compressed a
             then (case exists fs2 f of
                     Inr True \<Rightarrow> (case stat_size fs2 f of
                                    Inl e \<Rightarrow> (Inr (a2\<lparr>compressed_size := None\<rparr>), fs2)
                                  | Inr k \<Rightarrow> (Inr (a2\<lparr>compressed_size := Some k\<rparr>), fs2))
                   | _ \<Rightarrow> (Inr (a2\<lparr>compressed_size := None\<rparr>), fs2))
             else (Inr (a2\<lparr>compressed_size := None\<rparr>), fs2))"
  using assms
  unfolding archive_post_init_def Let_def get_backup_file_path_eq write_step_def
  by (auto simp: has_value_value_of compress_fields move_fields
           split: sum.splits prod.splits bool.splits)

text \<open>
  C3. Once the backup root is there, an exception of the write step (the compression or
  the copy) does not leave the constructor: the \<^verbatim>\<open>BackupArchive\<close> is returned, with its
  name and file path set and its size \<^verbatim>\<open>None\<close>, and the filesystem is as the failed write
  step left it.
\<close>

theorem write_failure_swallowed:
  assumes "mkdir_parents fs (backup_path a) = Inr fs1"
    and "fst (write_step ev fs1 a) = Inl e"
  shows "archive_post_init ev fs a =
           (Inr (a\<lparr>backup_name := Some (make_backup_name a),
                   backup_file := Some (joinp (backup_path a) (make_backup_name a @ extension a)),
                   compressed_size := None\<rparr>),
            snd (write_step ev fs1 a))"
  using assms(2) unfolding archive_post_init_after_mkdir [OF assms(1)] Let_def
  by (cases "write_step ev fs1 a") auto

lemma sum_cases_Inr: "\<not> isl x \<Longrightarrow> x = Inr (projr x)"
  by (cases x) auto

theorem write_failure_swallowed_witness:
  "\<not> isl (mkdir_parents broken_fs (backup_path (notes_archive True ZIP 5)))
   \<and> fst (write_step example_env
            (projr (mkdir_parents broken_fs (backup_path (notes_archive True ZIP 5))))
            (notes_archive True ZIP 5)) = Inl (OSError ''no such file'')
   \<and> \<not> isl (fst (archive_post_init example_env broken_fs (notes_archive True ZIP 5)))
   \<and> compressed_size (projr (fst (archive_post_init example_env broken_fs (notes_archive True ZIP 5))))
       = None"
proof -
  let ?a = "notes_archive True ZIP 5"
  let ?m = "mkdir_parents broken_fs (backup_path ?a)"
  have m: "\<not> isl ?m" by code_simp
  then have m': "?m = Inr (projr ?m)" by (rule sum_cases_Inr)
  have w: "fst (write_step example_env (projr ?m) ?a) = Inl (OSError ''no such file'')"
    by code_simp
  from write_failure_swallowed [OF m' w] m w show ?thesis by simp
qed

subsection \<open>Copy mode\<close>

lemma stat_Nil: "stat fs [] = follow fs"
  by (simp add: stat_def split: sum.splits option.splits)

lemma lstat_append:
  "lstat fs (p @ [c]) =
     (case stat fs p of
        Inl e \<Rightarrow> Inl e
      | Inr (Some (Dir es)) \<Rightarrow> (case map_of es c of None \<Rightarrow> Inr None | Some m \<Rightarrow> Inr (Some m))
      | Inr (Some (Locked es)) \<Rightarrow> Inl (OSError ''stat failed'')
      | Inr _ \<Rightarrow> Inr None)"
proof (induction p arbitrary: fs)
  case Nil
  show ?case by (simp add: stat_Nil split: sum.splits option.splits node.splits)
next
  case (Cons x xs)
  show ?case
    by (simp add: Cons.IH stat_def split: sum.splits option.splits node.splits)
qed

lemma exists_child_is_dir:
  assumes "exists fs (p @ [c]) = Inr True"
  shows "is_dir fs p = Inr True"
proof -
  from assms obtain n where "lstat fs (p @ [c]) = Inr (Some n)"
    by (auto simp: exists_def stat_def split: sum.splits option.splits)
  then obtain es where "stat fs p = Inr (Some (Dir es))"
    unfolding lstat_append by (auto split: sum.splits option.splits node.splits)
  then show ?thesis by (simp add: is_dir_def)
qed

lemma mkdir_parents_existing: "is_dir fs p = Inr True \<Longrightarrow> mkdir_parents fs p = Inr fs"
  by (auto simp: is_dir_def mkdir_parents_def split: sum.splits option.splits node.splits)

lemma stat_Cons:
  "stat fs (c # cs) =
     (case follow fs of
        Inl e \<Rightarrow> Inl e
      | Inr (Some (Dir es)) \<Rightarrow> (case map_of es c of None \<Rightarrow> Inr None | Some m \<Rightarrow> stat m cs)
      | Inr (Some (Locked es)) \<Rightarrow> Inl (OSError ''stat failed'')
      | Inr _ \<Rightarrow> Inr None)"
  by (simp add: stat_def split: sum.splits option.splits node.splits)

lemma stat_chain: "stat (chain cs n) cs = follow n"
  by (induction cs) (simp_all add: stat_Nil stat_Cons)

lemma install_stat: "install fs p n = Inr fs' \<Longrightarrow> stat fs' p = follow n"
proof (induction fs p n arbitrary: fs' rule: install.induct)
  case (2 es c cs n)
  then show ?case
    by (auto simp: stat_Cons update_conv' stat_chain split: option.splits sum.splits)
next
  case (3 t c cs n)
  then show ?case by (auto simp: stat_Cons split: sum.splits)
qed simp_all

lemma move_exists:
  assumes "move fs a = (Inr (), fs')"
  shows "exists fs' (joinp (backup_path a) (src_name (source a))) = Inr True"
  using assms
  by (auto simp: move_def Let_def copytree_def exists_def
           split: sum.splits bool.splits option.splits node.splits prod.splits if_splits
           dest!: install_stat)

lemma mkdir_parents_is_dir: "mkdir_parents fs p = Inr fs' \<Longrightarrow> is_dir fs' p = Inr True"
  by (auto simp: mkdir_parents_def is_dir_def
           split: sum.splits option.splits node.splits dest!: install_stat)

lemma copy_skipped:
  assumes "\<not> compressed a"
    and "exists fs (joinp (backup_path a) (src_name (source a))) = Inr True"
    and "src_name (source a) \<noteq> [] \<or> is_dir fs (backup_path a) = Inr True"
  shows "archive_post_init ev fs a =
           (Inr (a\<lparr>backup_name := Some (make_backup_name a),
                   backup_file := Some (joinp (backup_path a) (make_backup_name a)),
                   compressed_size := None\<rparr>),
            fs)"
proof -
  have d: "is_dir fs (backup_path a) = Inr True"
  proof (cases "src_name (source a) = []")
    case True
    with assms(3) show ?thesis by simp
  next
    case False
    with assms(2) have "exists fs (backup_path a @ [src_name (source a)]) = Inr True"
      by (simp add: joinp_def)
    then show ?thesis by (rule exists_child_is_dir)
  qed
  then have m: "mkdir_parents fs (backup_path a) = Inr fs" by (rule mkdir_parents_existing)
  have w: "write_step ev fs a = (Inr (), fs)"
    using assms(1,2) by (simp add: write_step_def move_def)
  have e: "extension a = []" using assms(1) by (simp add: extension_def)
  show ?thesis
    unfolding archive_post_init_after_mkdir [OF m] Let_def w e using assms(1) by simp
qed

text \<open>
  Two uncompressed builds in succession, against the same backup root and source name:
  when the copy of the first raises nothing, the second leaves the filesystem as the first
  has left it.
\<close>

lemma second_copy_skipped:
  assumes "\<not> compressed a" and "\<not> compressed b"
    and "backup_path b = backup_path a"
    and "src_name (source b) = src_name (source a)"
    and "mkdir_parents fs (backup_path a) = Inr fs1"
    and "move fs1 a = (Inr (), fs2)"
  shows "snd (archive_post_init ev fs a) = fs2"
    and "snd (archive_post_init ev' fs2 b) = fs2"
    and "\<not> isl (fst (archive_post_init ev' fs2 b))"
proof -
  have w: "write_step ev fs1 a = (Inr (), fs2)"
    using assms(1,6) by (simp add: write_step_def)
  show "snd (archive_post_init ev fs a) = fs2"
    unfolding archive_post_init_after_mkdir [OF assms(5)] Let_def w using assms(1) by simp
  have x: "exists fs2 (joinp (backup_path b) (src_name (source b))) = Inr True"
    using move_exists [OF assms(6)] assms(3,4) by simp
  have d: "src_name (source b) \<noteq> [] \<or> is_dir fs2 (backup_path b) = Inr True"
  proof (cases "src_name (source a) = []")
    case True
    from mkdir_parents_is_dir [OF assms(5)] have i: "is_dir fs1 (backup_path a) = Inr True" .
    then have "exists fs1 (joinp (backup_path a) (src_name (source a))) = Inr True"
      using True
      by (auto simp: joinp_def is_dir_def exists_def split: sum.splits option.splits node.splits)
    with assms(6) have "fs2 = fs1" by (simp add: move_def)
    with i assms(3) show ?thesis by simp
  next
    case False
    with assms(4) show ?thesis by simp
  qed
  from copy_skipped [OF assms(2) x d, of ev']
  show "snd (archive_post_init ev' fs2 b) = fs2" "\<not> isl (fst (archive_post_init ev' fs2 b))"
    by simp_all
qed

text \<open>
  C6. An uncompressed build whose destination \<^verbatim>\<open>backup_path / source.name\<close> exists
  returns its archive without an error and leaves the filesystem as it was: nothing is
  copied, merged or replaced. So does any further uncompressed build against the same
  backup root and source name. (The destination lies inside the backup root: the source
  name is not empty, or the backup root is a directory.)
\<close>

theorem copy_skipped_when_destination_exists:
  assumes "\<not> compressed a"
    and "exists fs (joinp (backup_path a) (src_name (source a))) = Inr True"
    and "src_name (source a) \<noteq> [] \<or> is_dir fs (backup_path a) = Inr True"
  shows "archive_post_init ev fs a =
           (Inr (a\<lparr>backup_name := Some (make_backup_name a),
                   backup_file := Some (joinp (backup_path a) (make_backup_name a)),
                   compressed_size := None\<rparr>),
            fs)
       \<and> (\<not> compressed b \<and> backup_path b = backup_path a
            \<and> src_name (source b) = src_name (source a) \<longrightarrow>
          archive_post_init ev' (snd (archive_post_init ev fs a)) b =
            (Inr (b\<lparr>backup_name := Some (make_backup_name b),
                    backup_file := Some (joinp (backup_path b) (make_backup_name b)),
                    compressed_size := None\<rparr>),
             fs))"
proof -
  note 1 = copy_skipped [OF assms, of ev]
  have "\<not> compressed b \<and> backup_path b = backup_path a
            \<and> src_name (source b) = src_name (source a) \<Longrightarrow>
          archive_post_init ev' fs b =
            (Inr (b\<lparr>backup_name := Some (make_backup_name b),
                    backup_file := Some (joinp (backup_path b) (make_backup_name b)),
                    compressed_size := None\<rparr>),
             fs)"
    using assms(2,3) by (intro copy_skipped) simp_all
  with 1 show ?thesis by simp
qed

theorem copy_skipped_witness:
  "snd (archive_post_init example_env
          (snd (archive_post_init example_env notes_fs (notes_archive False ZIP 5)))
          (notes_archive False ZIP 6))
     = snd (archive_post_init example_env notes_fs (notes_archive False ZIP 5))
   \<and> \<not> isl (fst (archive_post_init example_env
          (snd (archive_post_init example_env notes_fs (notes_archive False ZIP 5)))
          (notes_archive False ZIP 6)))
   \<and> snd (archive_post_init example_env
          (snd (archive_post_init example_env
             (snd (archive_post_init example_env notes_fs (notes_archive False ZIP 5)))
             (notes_archive False ZIP 6)))
          (notes_archive False TAR 7))
     = snd (archive_post_init example_env notes_fs (notes_archive False ZIP 5))
   \<and> stat (snd (archive_post_init example_env notes_fs (notes_archive False ZIP 5)))
          [''home'', ''.backups'', ''Notes''] = Inr (Some notes_tree)"
proof -
  let ?fs1 = "snd (archive_post_init example_env notes_fs (notes_archive False ZIP 5))"
  let ?b = "notes_archive False ZIP 6"
  let ?c = "notes_archive False TAR 7"
  have c: "\<not> compressed ?b" by (simp add: notes_archive_def)
  have x: "exists ?fs1 (joinp (backup_path ?b) (src_name (source ?b))) = Inr True"
    by code_simp
  have n: "src_name (source ?b) \<noteq> [] \<or> is_dir ?fs1 (backup_path ?b) = Inr True"
    by (simp add: notes_archive_def notes_source_def)
  have s: "stat ?fs1 [''home'', ''.backups'', ''Notes''] = Inr (Some notes_tree)"
    by code_simp
  have t: "\<not> compressed ?c \<and> backup_path ?c = backup_path ?b
            \<and> src_name (source ?c) = src_name (source ?b)"
    by (simp add: notes_archive_def)
  note th = copy_skipped_when_destination_exists [OF c x n, of example_env ?c example_env]
  note A = th [THEN conjunct1]
  note B = th [THEN conjunct2, THEN mp, OF t]
  have 1: "snd (archive_post_init example_env ?fs1 ?b) = ?fs1"
    by (simp only: A snd_conv)
  have 2: "\<not> isl (fst (archive_post_init example_env ?fs1 ?b))"
    by (simp only: A fst_conv sum.disc not_False_eq_True)
  have 3: "snd (archive_post_init example_env (snd (archive_post_init example_env ?fs1 ?b)) ?c) = ?fs1"
    by (simp only: B snd_conv)
  from 1 2 3 s show ?thesis by (intro conjI)
qed

subsection \<open>Recording a backup\<close>

lemma save_backup_metadata_fresh:
  assumes "fresh s"
  shows "save_backup_metadata ev mgr db s =
     (if insert_fails ev db InsertDirectory then (Inl (DBError ''insert into directories''), db, s)
      else if insert_fails ev db InsertBackup then (Inl (DBError ''insert into backups''), db, s)
      else if rejects ev Commit then (Inl (DBError ''commit''), db, s)
      else (Inr (),
            db\<lparr>directories := directories db @
                   [directory_row mgr (next_key (map dir_id (directories db)))],
               backups := backups db @
                   [backup_row mgr (next_key (map bk_id (backups db)))
                                   (next_key (map dir_id (directories db)))]\<rparr>,
            s))"
  using assms
  by (simp add: save_backup_metadata_def flush_def commit_def add_directory_def add_backup_def
        last_directory_id_def Let_def rollback_def fresh_def directory_row_def backup_row_def)

text \<open>
  C2. \<^verbatim>\<open>save_backup_metadata\<close>, on a session that has nothing pending, inserts the directory
  row and the backup row as one unit. It raises exactly when one of the two inserts or the
  commit fails, and then the database holds the rows it held before and the session is
  back as it was: no row of either table is added. When it returns, each table has
  exactly one new row, and the backup row's \<^verbatim>\<open>directory_id\<close> is the key generated for the
  directory row.
\<close>

theorem record_backup_atomic:
  assumes "fresh s"
    and "save_backup_metadata ev mgr db s = (r, db', s')"
  shows "(isl r \<longleftrightarrow> statement_fails ev db)
       \<and> (isl r \<longrightarrow> db' = db \<and> s' = s)
       \<and> (\<not> isl r \<longrightarrow>
            directories db' = directories db @
              [directory_row mgr (next_key (map dir_id (directories db)))]
          \<and> backups db' = backups db @
              [backup_row mgr (next_key (map bk_id (backups db)))
                              (next_key (map dir_id (directories db)))]
          \<and> directory_id (last (backups db')) = dir_id (last (directories db'))
          \<and> s' = s)"
  using assms(2) unfolding save_backup_metadata_fresh [OF assms(1)] statement_fails_def
  by (auto simp: directory_row_def backup_row_def split: if_splits)

theorem record_backup_atomic_witness:
  "fresh new_session
   \<and> isl (fst (save_backup_metadata (failing_env InsertBackup) notes_manager ready_catalog new_session))
   \<and> fst (snd (save_backup_metadata (failing_env InsertBackup) notes_manager ready_catalog new_session))
       = ready_catalog
   \<and> \<not> isl (fst (save_backup_metadata example_env notes_manager ready_catalog new_session))
   \<and> directories (fst (snd (save_backup_metadata example_env notes_manager ready_catalog new_session)))
       = [directory_row notes_manager 1]
   \<and> backups (fst (snd (save_backup_metadata example_env notes_manager ready_catalog new_session)))
       = [backup_row notes_manager 1 1]"
proof -
  let ?f = "save_backup_metadata (failing_env InsertBackup) notes_manager ready_catalog new_session"
  let ?g = "save_backup_metadata example_env notes_manager ready_catalog new_session"
  have n: "fresh new_session" by (simp add: fresh_def new_session_def)
  have f: "?f = (fst ?f, fst (snd ?f), snd (snd ?f))" by simp
  have g: "?g = (fst ?g, fst (snd ?g), snd (snd ?g))" by simp
  have x: "statement_fails (failing_env InsertBackup) ready_catalog"
    by (simp add: statement_fails_def insert_fails_def failing_env_def)
  have y: "\<not> statement_fails example_env ready_catalog"
    by (simp add: statement_fails_def insert_fails_def example_env_def ready_catalog_def)
  have k: "next_key [] = 1" "directories ready_catalog = []" "backups ready_catalog = []"
    by (simp_all add: next_key_def ready_catalog_def)
  from record_backup_atomic [OF n f] record_backup_atomic [OF n g] n x y
  show ?thesis by (simp add: k)
qed

subsection \<open>An invalid source\<close>










subsection \<open>The sessions of a run\<close>

lemma save_backup_metadata_session:
  "fresh s \<Longrightarrow> snd (snd (save_backup_metadata ev mgr db s)) = s"
  by (simp add: save_backup_metadata_fresh)

lemma BackupManager_init_sessions:
  assumes "BackupManager_init ev w p calc c t = (r, w')"
  shows "sessions w' = sessions w @ [new_session]"
    and "r = Inr m \<Longrightarrow> session_of m = length (sessions w)"
  using assms
  by (auto simp: BackupManager_init_def DatabaseManager_init_def
           split: sum.splits prod.splits)

text \<open>
  Every run of \<^verbatim>\<open>main\<close> that gets past the creation of the tables creates two sessions. The
  first, of \<^verbatim>\<open>main\<close>'s own \<^verbatim>\<open>DatabaseManager\<close>, is never closed; the second, the manager's,
  is closed exactly when the run ends without an error.
\<close>

lemma main_sessions:
  "session_states (snd (main ev w)) =
     session_states w @
       (if rejects ev CreateTables then [False] else [False, fst (main ev w) = None])"
proof (cases "rejects ev CreateTables")
  case True
  then show ?thesis
    by (simp add: main_def DatabaseManager_init_def create_db_def session_states_def new_session_def)
next
  case False
  let ?w2 = "w\<lparr>sessions := sessions w @ [new_session], catalog := (catalog w)\<lparr>has_tables := True\<rparr>\<rparr>"
  obtain r w3 where b: "BackupManager_init ev ?w2 (home ev @ [''Desktop'', ''DataSafe'']) True True ZIP = (r, w3)"
    by (cases "BackupManager_init ev ?w2 (home ev @ [''Desktop'', ''DataSafe'']) True True ZIP")
  note s3 = BackupManager_init_sessions(1) [OF b]
  have f: "fresh new_session" by (simp add: fresh_def new_session_def)
  show ?thesis
  proof (cases r)
    case (Inl e)
    with False b s3 show ?thesis
      by (simp add: main_def DatabaseManager_init_def create_db_def session_states_def new_session_def)
  next
    case (Inr m)
    from BackupManager_init_sessions(2) [OF b Inr] have h: "session_of m = Suc (length (sessions w))"
      by simp
    have n: "sessions w3 ! session_of m = new_session" using s3 h by (simp add: nth_append)
    have l: "session_of m < length (sessions w3)" using s3 h by simp
    obtain q db' s' where sv: "save_backup_metadata ev m (catalog w3) new_session = (q, db', s')"
      by (cases "save_backup_metadata ev m (catalog w3) new_session")
    from save_backup_metadata_session [OF f, of ev m "catalog w3"] sv have s': "s' = new_session"
      by simp
    show ?thesis
      using False b Inr s3 h n l sv s'
      by (cases q)
         (simp_all add: main_def DatabaseManager_init_def create_db_def session_states_def
            new_session_def run_save_backup_metadata_def close_def session_close_def
            rollback_def list_update_append)
  qed
qed

text \<open>
  C9. The claim is that a run opens exactly one session and closes it on every exit path.
  \<^verbatim>\<open>main\<close> creates two sessions (its own \<^verbatim>\<open>DatabaseManager\<close> and the manager's) and calls
  \<^verbatim>\<open>close\<close> only after \<^verbatim>\<open>save_backup_metadata\<close> has returned: when the source is invalid, and
  when the commit fails, both sessions are left open; on success the manager's session is
  closed and the other is not.
\<close>

theorem main_session_not_released:
  "fst (main example_env bare_world) = Some not_a_valid_directory
   \<and> session_states (snd (main example_env bare_world)) = [False, False]
   \<and> fst (main (failing_env Commit) notes_world) = Some (DBError ''commit'')
   \<and> session_states (snd (main (failing_env Commit) notes_world)) = [False, False]
   \<and> fst (main example_env notes_world) = None
   \<and> session_states (snd (main example_env notes_world)) = [False, True]"
  by code_simp

subsection \<open>The size of the source\<close>












text \<open>
  Where the tree holds regular files and directories that can be listed, and nothing else,
  the sum is the sum over the regular files, and nothing fails.
\<close>

lemma counted_bytes_plain:
  "plain m \<Longrightarrow> counted_bytes m = regular_file_bytes m \<and> readable m"
  "plain_entries es \<Longrightarrow> counted_bytes_entries es = regular_file_bytes_entries es \<and> readable_entries es"
  by (induction m and es rule: plain_plain_entries.induct) simp_all




subsection \<open>The entries of a zip archive\<close>

lemma write_node_follow: "write_node n c = Inr n' \<Longrightarrow> follow n' = Inr (Some (File c))"
  by (induction n c arbitrary: n' rule: write_node.induct) (auto split: sum.splits)

lemma write_file_stat: "write_file n p c = Inr n' \<Longrightarrow> stat n' p = Inr (Some (File c))"
proof (induction n p c arbitrary: n' rule: write_file.induct)
  case (1 n c)
  then show ?case by (simp add: stat_Nil write_node_follow)
next
  case (2 es x xs c)
  then show ?case
    by (auto simp: stat_Cons update_conv' stat_Nil split: option.splits sum.splits if_splits)
next
  case (3 n x xs c)
  then show ?case by (auto simp: stat_Cons split: sum.splits)
qed simp_all

lemma zip_loop_all:
  "zip_loop nm es = (ms, None) \<Longrightarrow> map (zip_write nm) es = map Inr ms"
  by (induction es arbitrary: ms) (auto split: sum.splits prod.splits)

lemma zip_write_name: "zip_write nm f = Inr m \<Longrightarrow> fst m = zip_name nm f"
  by (auto simp: zip_write_def zip_name_def split: sum.splits option.splits node.splits)

lemma zip_loop_names:
  "zip_loop nm es = (ms, None) \<Longrightarrow> map fst ms = map (zip_name nm) es"
  by (induction es arbitrary: ms) (auto split: sum.splits prod.splits dest: zip_write_name)

text \<open>
  C5, as the code has it. A zip build whose write step raises nothing leaves, at the backup
  file, the archive of exactly one member for every path of the recursive traversal of the
  source, in its order: regular files and directories alike, each named
  \<^verbatim>\<open>safe_name/<relative path>\<close>, a directory with a closing slash.
\<close>

theorem zip_entries:
  assumes "compression_type a = ZIP"
    and "compress ev fs a f = (Inr (), fs')"
  shows "\<exists>fs1 ms. write_file fs f [] = Inr fs1
           \<and> stat fs' f = Inr (Some (File (enc ev ZIP ms)))
           \<and> map (zip_write (src_name (source a))) (rglob_path fs1 (src_path (source a))) = map Inr ms
           \<and> map fst ms = map (zip_name (src_name (source a))) (rglob_path fs1 (src_path (source a)))
           \<and> length ms = length (rglob_path fs1 (src_path (source a)))"
proof -
  from assms(2) obtain fs1 where 1: "write_file fs f [] = Inr fs1"
    by (auto simp: compress_def split: sum.splits)
  obtain ms r where 2: "zip_loop (src_name (source a)) (rglob_path fs1 (src_path (source a))) = (ms, r)"
    by (cases "zip_loop (src_name (source a)) (rglob_path fs1 (src_path (source a)))")
  from assms 1 2 have 3: "write_file fs1 f (enc ev ZIP ms) = Inr fs'" and 4: "r = None"
    by (auto simp: compress_def archive_members_def split: sum.splits option.splits)
  from 2 4 have 5: "zip_loop (src_name (source a)) (rglob_path fs1 (src_path (source a))) = (ms, None)"
    by simp
  have 6: "map (zip_write (src_name (source a))) (rglob_path fs1 (src_path (source a))) = map Inr ms"
    using 5 by (rule zip_loop_all)
  have 7: "map fst ms = map (zip_name (src_name (source a))) (rglob_path fs1 (src_path (source a)))"
    using 5 by (rule zip_loop_names)
  from 7 have 8: "length ms = length (rglob_path fs1 (src_path (source a)))"
    by (metis length_map)
  from 1 write_file_stat [OF 3] 6 7 8 show ?thesis by blast
qed

theorem zip_entries_witness:
  "fst (compress example_env
          (projr (mkdir_parents notes_fs [''home'', ''.backups'']))
          (notes_archive True ZIP 5)
          [''home'', ''.backups'', ''Notes-2024-01-02-030405.zip'']) = Inr ()
   \<and> (\<exists>ms. stat (snd (compress example_env
                       (projr (mkdir_parents notes_fs [''home'', ''.backups'']))
                       (notes_archive True ZIP 5)
                       [''home'', ''.backups'', ''Notes-2024-01-02-030405.zip'']))
                 [''home'', ''.backups'', ''Notes-2024-01-02-030405.zip'']
               = Inr (Some (File (enc example_env ZIP ms)))
             \<and> map fst ms = [''Notes/a.txt'', ''Notes/sub/'', ''Notes/sub/b.txt'']
             \<and> length ms = 3)"
proof -
  let ?fs = "projr (mkdir_parents notes_fs [''home'', ''.backups''])"
  let ?a = "notes_archive True ZIP 5"
  let ?f = "[''home'', ''.backups'', ''Notes-2024-01-02-030405.zip'']"
  let ?c = "compress example_env ?fs ?a ?f"
  have t: "compression_type ?a = ZIP" by (simp add: notes_archive_def)
  have r: "fst ?c = Inr ()" by code_simp
  then have c: "?c = (Inr (), snd ?c)" by (cases ?c) simp
  have n: "map (zip_name (src_name (source ?a)))
             (rglob_path (projr (write_file ?fs ?f [])) (src_path (source ?a)))
           = [''Notes/a.txt'', ''Notes/sub/'', ''Notes/sub/b.txt'']"
    by code_simp
  from zip_entries [OF t c] obtain fs1 ms where
      all: "write_file ?fs ?f [] = Inr fs1
          \<and> stat (snd ?c) ?f = Inr (Some (File (enc example_env ZIP ms)))
          \<and> map (zip_write (src_name (source ?a))) (rglob_path fs1 (src_path (source ?a))) = map Inr ms
          \<and> map fst ms = map (zip_name (src_name (source ?a))) (rglob_path fs1 (src_path (source ?a)))
          \<and> length ms = length (rglob_path fs1 (src_path (source ?a)))"
    by (elim exE)
  note w = all [THEN conjunct1]
  note s = all [THEN conjunct2, THEN conjunct1]
  note m = all [THEN conjunct2, THEN conjunct2, THEN conjunct2, THEN conjunct1]
  from w have "fs1 = projr (write_file ?fs ?f [])" by simp
  with m n have k: "map fst ms = [''Notes/a.txt'', ''Notes/sub/'', ''Notes/sub/b.txt'']"
    by (simp only:)
  then have "length (map fst ms) = 3" by simp
  then have l: "length ms = 3" by (simp only: length_map)
  from s k l have "stat (snd ?c) ?f = Inr (Some (File (enc example_env ZIP ms)))
             \<and> map fst ms = [''Notes/a.txt'', ''Notes/sub/'', ''Notes/sub/b.txt'']
             \<and> length ms = 3"
    by (intro conjI)
  then have "\<exists>ms. stat (snd ?c) ?f = Inr (Some (File (enc example_env ZIP ms)))
             \<and> map fst ms = [''Notes/a.txt'', ''Notes/sub/'', ''Notes/sub/b.txt'']
             \<and> length ms = 3"
    by (rule exI)
  with r show ?thesis by (rule conjI)
qed

text \<open>
  C5, as the claim states it, fails: for the source with \<^verbatim>\<open>a.txt\<close> and \<^verbatim>\<open>sub/b.txt\<close> the zip
  has three entries, the directory \<^verbatim>\<open>Notes/sub/\<close> among them, not the two regular files
  alone.
\<close>

theorem zip_holds_directory_entry:
  "stat (snd (archive_post_init example_env notes_fs (notes_archive True ZIP 5)))
        [''home'', ''.backups'', ''Notes-2024-01-02-030405.zip'']
     = Inr (Some (File (enc example_env ZIP
          [(''Notes/a.txt'', MFile ''hello''), (''Notes/sub/'', MDir),
           (''Notes/sub/b.txt'', MFile ''abc'')])))
   \<and> fst (archive_members notes_fs (notes_archive True ZIP 5))
     = [(''Notes/a.txt'', MFile ''hello''), (''Notes/sub/'', MDir), (''Notes/sub/b.txt'', MFile ''abc'')]
   \<and> zip_spec ''Notes'' (rglob_path notes_fs [''home'', ''Notes''])
     = [(''Notes/a.txt'', MFile ''hello''), (''Notes/sub/b.txt'', MFile ''abc'')]
   \<and> fst (archive_members notes_fs (notes_archive True ZIP 5))
     \<noteq> zip_spec ''Notes'' (rglob_path notes_fs [''home'', ''Notes''])
   \<and> length (fst (archive_members notes_fs (notes_archive True ZIP 5))) \<noteq> 2"
proof -
  have a: "fst (archive_members notes_fs (notes_archive True ZIP 5))
     = [(''Notes/a.txt'', MFile ''hello''), (''Notes/sub/'', MDir), (''Notes/sub/b.txt'', MFile ''abc'')]"
    by code_simp
  have b: "zip_spec ''Notes'' (rglob_path notes_fs [''home'', ''Notes''])
     = [(''Notes/a.txt'', MFile ''hello''), (''Notes/sub/b.txt'', MFile ''abc'')]"
    by code_simp
  have c: "stat (snd (archive_post_init example_env notes_fs (notes_archive True ZIP 5)))
        [''home'', ''.backups'', ''Notes-2024-01-02-030405.zip'']
     = Inr (Some (File (enc example_env ZIP
          [(''Notes/a.txt'', MFile ''hello''), (''Notes/sub/'', MDir),
           (''Notes/sub/b.txt'', MFile ''abc'')])))"
    by code_simp
  show ?thesis unfolding a b using c by simp
qed

end
